theory Spec2Isabelle
  imports Complex_Main "HOL-Library.Multiset"
begin

section \<open>Values shared by the screens\<close>

text \<open>
  The screens are written against untyped JSON payloads. Numbers are modelled as
  rationals: a JSON payload carries finite decimal numbers only, on which the comparisons
  \<open>>=\<close>, \<open><=\<close> and the truthiness test of JavaScript agree with the rationals
  (\<open>0\<close> is the only falsy number that can occur). An optional field is an
  \<open>option\<close>; \<open>None\<close> stands for a field that is \<open>undefined\<close> or \<open>null\<close>.
  A date field holds an ISO date string; it is represented by the epoch milliseconds that
  \<open>new Date(s).getTime()\<close> reads from it, so a present date is always truthy.
\<close>

type_synonym num = rat

text \<open>The outcome of an awaited request.\<close>

datatype 'a settled = Resolved 'a | Rejected

text \<open>A response is either wrapped as \<open>{data: x}\<close> or is the payload itself;
  the code reads it with \<open>r?.data || r\<close>.\<close>

datatype 'a apiResponse = WithData 'a | Plain 'a

fun unwrapData :: "'a apiResponse \<Rightarrow> 'a" where
  "unwrapData (WithData x) = x"
| "unwrapData (Plain x) = x"

text \<open>Truthiness of an optional number and of an optional string.\<close>

fun truthyNum :: "num option \<Rightarrow> bool" where
  "truthyNum None = False"
| "truthyNum (Some x) = (x \<noteq> 0)"

fun truthyStr :: "string option \<Rightarrow> bool" where
  "truthyStr None = False"
| "truthyStr (Some s) = (s \<noteq> [])"

text \<open>\<open>a || b\<close> on optional numbers: \<open>a\<close> when it is truthy, else \<open>b\<close> whatever it is.\<close>

definition orNum :: "num option \<Rightarrow> num option \<Rightarrow> num option" where
  "orNum a b = (if truthyNum a then a else b)"

text \<open>\<open>x || 0\<close>: the number, or \<open>0\<close> when it is missing.\<close>

definition orZero :: "num option \<Rightarrow> num" where
  "orZero a = (case a of Some x \<Rightarrow> x | None \<Rightarrow> 0)"

text \<open>A nested coordinate object (\<open>post.waypoint\<close>, \<open>post.location\<close>,
  \<open>post.coordinates\<close>) with the field aliases the screens read.\<close>

record coordObj =
  c_lat :: "num option"
  c_latitude :: "num option"
  c_lon :: "num option"
  c_lng :: "num option"
  c_longitude :: "num option"

text \<open>A post as the server sends it.\<close>

record post =
  p_id :: "string option"
  p_lat :: "num option"
  p_latitude :: "num option"
  p_lon :: "num option"
  p_lng :: "num option"
  p_longitude :: "num option"
  p_waypoint :: "coordObj option"
  p_location :: "coordObj option"
  p_coordinates :: "coordObj option"
  p_date :: "int option"
  p_createdAt :: "int option"
  p_likesCount :: nat
  p_bookmarked :: "bool option"

text \<open>A waypoint as the lists and the map hold it: \<open>{id?, lat, lon, date?, post?}\<close>.\<close>

record waypoint =
  w_id :: "string option"
  lat :: num
  lon :: num
  date :: "int option"
  post :: "post option"

text \<open>\<open>waypoint.post?.id\<close>\<close>

definition postId :: "waypoint \<Rightarrow> string option" where
  "postId w = (case post w of None \<Rightarrow> None | Some p \<Rightarrow> p_id p)"

section \<open>Viewport bounds\<close>

text \<open>\<open>MapView.getCurrentBounds\<close> resolves to
  \<open>{ne: {lat, lon}, sw: {lat, lon}}\<close> or to \<open>null\<close>.\<close>

record latLon =
  ll_lat :: num
  ll_lon :: num

record bounds =
  ne :: latLon
  sw :: latLon

section \<open>Journal screen: the viewport filter\<close>

text \<open>
  \<open>updateVisibleEntries\<close> of the journal screen. Its inputs are whether
  \<open>mapViewRef.current\<close> is set, the query result \<open>mapWaypoints?.waypoints\<close>, the
  outcome of \<open>getCurrentBounds()\<close> and the previous \<open>visibleEntries\<close>; the result is
  the new value of \<open>visibleEntries\<close>.
\<close>

definition inJournalBounds :: "num \<Rightarrow> num \<Rightarrow> num \<Rightarrow> num \<Rightarrow> waypoint \<Rightarrow> bool" where
  "inJournalBounds swLat swLon neLat neLon waypoint =
     (lat waypoint \<ge> swLat \<and> lat waypoint \<le> neLat \<and>
      lon waypoint \<ge> swLon \<and> lon waypoint \<le> neLon)"

definition updateVisibleEntries ::
  "bool \<Rightarrow> waypoint list option \<Rightarrow> bounds option settled \<Rightarrow> waypoint list \<Rightarrow> waypoint list" where
  "updateVisibleEntries mapViewRef mapWaypoints boundsResult visibleEntries =
     (if \<not> mapViewRef then visibleEntries
      else
        let waypointsToFilter = (case mapWaypoints of Some ws \<Rightarrow> ws | None \<Rightarrow> []) in
        case boundsResult of
          Rejected \<Rightarrow> waypointsToFilter
        | Resolved None \<Rightarrow> waypointsToFilter
        | Resolved (Some b) \<Rightarrow>
            let swLat = ll_lat (sw b); swLon = ll_lon (sw b);
                neLat = ll_lat (ne b); neLon = ll_lon (ne b)
            in
              if length waypointsToFilter > 0 \<and> truthyNum (Some swLat) \<and> truthyNum (Some swLon)
                 \<and> truthyNum (Some neLat) \<and> truthyNum (Some neLon)
              then filter (inJournalBounds swLat swLon neLat neLon) waypointsToFilter
              else waypointsToFilter)"

section \<open>Explore screen: the viewport filter\<close>

text \<open>
  The state \<open>mapBounds\<close> of the explore screen is untyped. The filter reads it as
  \<open>{ne: [lon, lat], sw: [lon, lat]}\<close>; \<open>updateMapBounds\<close> stores the array
  \<open>[north, south, east, west]\<close>. Both shapes are values of \<open>mapBoundsVal\<close>;
  \<open>None\<close> is the initial \<open>null\<close>.
\<close>

datatype mapBoundsVal =
    BoundsArray "num list"
  | BoundsCorners "num list" "num list"

text \<open>Reading an array element: \<open>undefined\<close> out of range.\<close>

definition elemAt :: "num list \<Rightarrow> nat \<Rightarrow> num option" where
  "elemAt xs i = (if i < length xs then Some (xs ! i) else None)"

text \<open>\<open>x >= y\<close> and \<open>x <= y\<close> where \<open>y\<close> may be \<open>undefined\<close>: then false.\<close>

fun geUndef :: "num \<Rightarrow> num option \<Rightarrow> bool" where
  "geUndef x None = False"
| "geUndef x (Some y) = (x \<ge> y)"

fun leUndef :: "num \<Rightarrow> num option \<Rightarrow> bool" where
  "leUndef x None = False"
| "leUndef x (Some y) = (x \<le> y)"

text \<open>The explore screen's collection is a JavaScript \<open>Map\<close>: an association list in
  insertion order. \<open>mapValues\<close> is \<open>Array.from(m.values())\<close>.\<close>

type_synonym 'v jsMap = "(string \<times> 'v) list"

definition mapValues :: "'v jsMap \<Rightarrow> 'v list" where
  "mapValues m = map snd m"

definition visibleWaypoints :: "waypoint jsMap \<Rightarrow> mapBoundsVal option \<Rightarrow> waypoint list" where
  "visibleWaypoints allWaypoints mapBounds =
     (case mapBounds of
        None \<Rightarrow> mapValues allWaypoints
      | Some (BoundsArray _) \<Rightarrow> mapValues allWaypoints
      | Some (BoundsCorners neArr swArr) \<Rightarrow>
          let north = elemAt neArr 1; south = elemAt swArr 1;
              east = elemAt neArr 0; west = elemAt swArr 0
          in filter (\<lambda>waypoint.
                 geUndef (lat waypoint) south \<and> leUndef (lat waypoint) north \<and>
                 geUndef (lon waypoint) west \<and> leUndef (lon waypoint) east)
               (mapValues allWaypoints))"

text \<open>\<open>updateMapBounds\<close>: what the explore screen stores once
  \<open>getCurrentBounds()\<close> has resolved; nothing is stored for \<open>null\<close>.\<close>

definition updateMapBounds :: "bounds option \<Rightarrow> mapBoundsVal option \<Rightarrow> mapBoundsVal option" where
  "updateMapBounds boundsResult mapBounds =
     (case boundsResult of
        None \<Rightarrow> mapBounds
      | Some b \<Rightarrow> Some (BoundsArray [ll_lat (ne b), ll_lat (sw b), ll_lon (ne b), ll_lon (sw b)]))"

section \<open>Identity keys and the merged collection\<close>

text \<open>
  The template literal \<open>`${waypoint.lat}_${waypoint.lon}`\<close> prints both numbers with
  the language's number-to-string conversion. \<open>numToString\<close> is that conversion where
  it prints plain decimal notation (magnitudes from \<open>10^-6\<close> up to \<open>10^21\<close>, which
  covers latitudes and longitudes): an optional minus sign, the integer part in decimal
  and, when the number is not an integer, a point and the fraction digits (at most 17,
  the most a double prints).
\<close>

definition digitChar :: "nat \<Rightarrow> char" where
  "digitChar d = ''0123456789'' ! d"

fun natDigits :: "nat \<Rightarrow> string" where
  "natDigits n = (if n < 10 then [digitChar n] else natDigits (n div 10) @ [digitChar (n mod 10)])"

fun fracDigits :: "nat \<Rightarrow> num \<Rightarrow> string" where
  "fracDigits 0 f = []"
| "fracDigits (Suc fuel) f =
     (if f = 0 then []
      else digitChar (nat \<lfloor>10 * f\<rfloor>) # fracDigits fuel (10 * f - of_int \<lfloor>10 * f\<rfloor>))"

definition numToString :: "num \<Rightarrow> string" where
  "numToString x =
     (let a = \<bar>x\<bar>; f = a - of_int \<lfloor>a\<rfloor>
      in (if x < 0 then ''-'' else []) @ natDigits (nat \<lfloor>a\<rfloor>) @
         (if f = 0 then [] else ''.'' @ fracDigits 17 f))"

text \<open>\<open>waypoint.post?.id || `${waypoint.lat}_${waypoint.lon}`\<close>, the same expression in
  both screens.\<close>

definition stableKey :: "waypoint \<Rightarrow> string" where
  "stableKey waypoint =
     (case postId waypoint of
        Some i \<Rightarrow> if i \<noteq> [] then i
                  else numToString (lat waypoint) @ ''_'' @ numToString (lon waypoint)
      | None \<Rightarrow> numToString (lat waypoint) @ ''_'' @ numToString (lon waypoint))"

text \<open>\<open>Map.prototype.set\<close>: the value of a key that is present is replaced where it
  stands; a new key goes to the end.\<close>

fun mapSet :: "string \<Rightarrow> 'v \<Rightarrow> 'v jsMap \<Rightarrow> 'v jsMap" where
  "mapSet k v [] = [(k, v)]"
| "mapSet k v ((k', v') # m) = (if k' = k then (k, v) # m else (k', v') # mapSet k v m)"

text \<open>The body of both merge effects: copy the previous map, then
  \<open>forEach\<close> waypoint \<open>updated.set(stableKey, waypoint)\<close>.\<close>

definition mergeWaypoints :: "waypoint jsMap \<Rightarrow> waypoint list \<Rightarrow> waypoint jsMap" where
  "mergeWaypoints prevWaypoints waypoints =
     foldl (\<lambda>updated waypoint. mapSet (stableKey waypoint) waypoint updated) prevWaypoints waypoints"

text \<open>Explore screen: the effect runs the merge when \<open>recentWaypoints?.waypoints\<close> is
  there (the query result may be \<open>null\<close>).\<close>

definition mergeAllWaypoints :: "waypoint jsMap \<Rightarrow> waypoint list option \<Rightarrow> waypoint jsMap" where
  "mergeAllWaypoints allWaypoints recentWaypoints =
     (case recentWaypoints of
        None \<Rightarrow> allWaypoints
      | Some waypoints \<Rightarrow> mergeWaypoints allWaypoints waypoints)"

text \<open>Journal screen: the effect runs the merge when \<open>userWaypoints.length > 0\<close>.\<close>

definition mergeAllUserEntries :: "waypoint jsMap \<Rightarrow> waypoint list \<Rightarrow> waypoint jsMap" where
  "mergeAllUserEntries allUserEntries userWaypoints =
     (if length userWaypoints > 0 then mergeWaypoints allUserEntries userWaypoints
      else allUserEntries)"

section \<open>Coordinate normalizers\<close>

text \<open>\<open>c.lat || c.latitude\<close> and \<open>c.lon || c.lng || c.longitude\<close> on a nested object.\<close>

definition coordLat :: "coordObj \<Rightarrow> num option" where
  "coordLat c = orNum (c_lat c) (c_latitude c)"

definition coordLon :: "coordObj \<Rightarrow> num option" where
  "coordLon c = orNum (orNum (c_lon c) (c_lng c)) (c_longitude c)"

text \<open>One fallback block of the normalizers:
  \<open>if (!lat && !lon && sub) { lat = sub.lat || sub.latitude; lon = sub.lon || sub.lng || sub.longitude }\<close>\<close>

definition tryNested :: "coordObj option \<Rightarrow> num option \<times> num option \<Rightarrow> num option \<times> num option" where
  "tryNested sub ll =
     (case sub of
        None \<Rightarrow> ll
      | Some c \<Rightarrow> if \<not> truthyNum (fst ll) \<and> \<not> truthyNum (snd ll) then (coordLat c, coordLon c) else ll)"

text \<open>\<open>new Date(post.date || post.createdAt)\<close>; \<open>None\<close> is the invalid date.\<close>

definition postDate :: "post \<Rightarrow> int option" where
  "postDate p = (case p_date p of Some d \<Rightarrow> Some d | None \<Rightarrow> p_createdAt p)"

text \<open>Bookmarks screen, \<open>waypointData\<close>: the coordinates found for one post, before the
  final \<open>|| 0\<close>.\<close>

definition bookmarkCoords :: "post \<Rightarrow> num option \<times> num option" where
  "bookmarkCoords p =
     tryNested (p_coordinates p)
       (tryNested (p_location p)
         (tryNested (p_waypoint p)
           (orNum (p_lat p) (p_latitude p), orNum (orNum (p_lon p) (p_lng p)) (p_longitude p))))"

definition bookmarkWaypoint :: "post \<Rightarrow> waypoint" where
  "bookmarkWaypoint p =
     \<lparr>w_id = None,
      lat = orZero (fst (bookmarkCoords p)),
      lon = orZero (snd (bookmarkCoords p)),
      date = postDate p,
      post = Some (p\<lparr>p_bookmarked := Some True\<rparr>)\<rparr>"

definition waypointData :: "post list option \<Rightarrow> waypoint list" where
  "waypointData bookmarks = (case bookmarks of None \<Rightarrow> [] | Some ps \<Rightarrow> map bookmarkWaypoint ps)"

text \<open>Journal screen, \<open>userWaypoints\<close>: top-level fields, then \<open>post.location\<close>; posts
  left with a zero coordinate are dropped.\<close>

definition journalCoords :: "post \<Rightarrow> num option \<times> num option" where
  "journalCoords p =
     tryNested (p_location p)
       (orNum (p_lat p) (p_latitude p), orNum (orNum (p_lon p) (p_lng p)) (p_longitude p))"

definition journalWaypoint :: "post \<Rightarrow> waypoint" where
  "journalWaypoint p =
     \<lparr>w_id = None,
      lat = orZero (fst (journalCoords p)),
      lon = orZero (snd (journalCoords p)),
      date = postDate p,
      post = Some p\<rparr>"

definition userWaypoints :: "post list option \<Rightarrow> waypoint list" where
  "userWaypoints userPosts =
     (case userPosts of
        None \<Rightarrow> []
      | Some ps \<Rightarrow> filter (\<lambda>waypoint. lat waypoint \<noteq> 0 \<and> lon waypoint \<noteq> 0) (map journalWaypoint ps))"

section \<open>Journey mode\<close>

text \<open>A waypoint of a trip as the server sends it, and the trip.\<close>

record rawWaypoint =
  rw_id :: "string option"
  rw_lat :: "num option"
  rw_latitude :: "num option"
  rw_lon :: "num option"
  rw_lng :: "num option"
  rw_longitude :: "num option"
  rw_location :: "coordObj option"
  rw_date :: "int option"
  rw_post :: "post option"

record trip =
  t_id :: string
  t_waypoints :: "rawWaypoint list option"

datatype tab = Entries | Journeys | Following | Followers

text \<open>What the drawer shows in full: the fetched entry, or the preview item on failure.\<close>

datatype entryData = FullEntry "post apiResponse" | PreviewData waypoint

text \<open>The state of the journal screen (the \<open>useState\<close> cells the claims read) and the
  two animated values of the drawer, in units of the screen height.\<close>

record journalState =
  selectedEntry :: "waypoint option"
  activeTab :: tab
  isJourneyMode :: bool
  selectedJourney :: "trip option"
  journeyWaypoints :: "waypoint list"
  visibleEntries :: "waypoint list"
  isExpandedJ :: bool
  isDrawerVisibleJ :: bool
  shouldRenderDrawerJ :: bool
  isLoadingExpandedJ :: bool
  fullEntryDataJ :: "entryData option"
  drawerHeightJ :: num
  translateYJ :: num

text \<open>Enrichment of one trip waypoint: \<open>getPostById\<close> for a waypoint with a post id;
  the original waypoint when the request fails or there is no post id.\<close>

definition enrichWaypoint :: "(string \<Rightarrow> post apiResponse settled) \<Rightarrow> rawWaypoint \<Rightarrow> rawWaypoint" where
  "enrichWaypoint getPostById waypoint =
     (case rw_post waypoint of
        None \<Rightarrow> waypoint
      | Some p \<Rightarrow>
          (case p_id p of
             None \<Rightarrow> waypoint
           | Some i \<Rightarrow>
               if i = [] then waypoint
               else (case getPostById i of
                       Resolved fullPost \<Rightarrow> waypoint\<lparr>rw_post := Some (unwrapData fullPost)\<rparr>
                     | Rejected \<Rightarrow> waypoint)))"

text \<open>The coordinate transformation of \<open>enterJourneyMode\<close>.\<close>

definition transformCoords :: "rawWaypoint \<Rightarrow> num option \<times> num option" where
  "transformCoords waypoint =
     (case rw_post waypoint of
        Some p \<Rightarrow>
          tryNested (p_location p)
            (orNum (orNum (p_lat p) (p_latitude p)) (rw_lat waypoint),
             orNum (orNum (orNum (orNum (p_lon p) (p_lng p)) (p_longitude p)) (rw_lon waypoint))
               (rw_lng waypoint))
      | None \<Rightarrow>
          tryNested (rw_location waypoint)
            (orNum (rw_lat waypoint) (rw_latitude waypoint),
             orNum (orNum (rw_lon waypoint) (rw_lng waypoint)) (rw_longitude waypoint)))"

text \<open>\<open>waypoint.date || waypoint.post?.date\<close>\<close>

definition transformDate :: "rawWaypoint \<Rightarrow> int option" where
  "transformDate waypoint =
     (case rw_date waypoint of
        Some d \<Rightarrow> Some d
      | None \<Rightarrow> (case rw_post waypoint of None \<Rightarrow> None | Some p \<Rightarrow> p_date p))"

text \<open>The transformed waypoint \<open>{...waypoint, lat, lon, date}\<close>; the coordinate aliases
  the spread carries along are not read again.\<close>

definition transformWaypoint :: "rawWaypoint \<Rightarrow> waypoint" where
  "transformWaypoint waypoint =
     \<lparr>w_id = rw_id waypoint,
      lat = orZero (fst (transformCoords waypoint)),
      lon = orZero (snd (transformCoords waypoint)),
      date = transformDate waypoint,
      post = rw_post waypoint\<rparr>"

text \<open>The sort key \<open>new Date(a.date || a.post?.date || 0).getTime()\<close>.\<close>

definition sortTime :: "waypoint \<Rightarrow> int" where
  "sortTime a =
     (case date a of
        Some d \<Rightarrow> d
      | None \<Rightarrow> (case post a of
                   None \<Rightarrow> 0
                 | Some p \<Rightarrow> (case p_date p of Some d \<Rightarrow> d | None \<Rightarrow> 0)))"

text \<open>\<open>Array.prototype.sort\<close> with the comparator \<open>dateA - dateB\<close>: a stable sort
  ascending by \<open>sortTime\<close>.\<close>

definition sortedWaypoints :: "waypoint list \<Rightarrow> waypoint list" where
  "sortedWaypoints transformedWaypoints = sort_key sortTime transformedWaypoints"

text \<open>The waypoints \<open>enterJourneyMode\<close> ends with, from the outcome of
  \<open>getTripById\<close> and of each \<open>getPostById\<close>.\<close>

definition loadJourneyWaypoints ::
  "trip apiResponse settled \<Rightarrow> (string \<Rightarrow> post apiResponse settled) \<Rightarrow> waypoint list" where
  "loadJourneyWaypoints tripResult getPostById =
     (let waypoints =
        (case tripResult of
           Rejected \<Rightarrow> []
         | Resolved fullTripResponse \<Rightarrow>
             (case t_waypoints (unwrapData fullTripResponse) of
                None \<Rightarrow> []
              | Some ws \<Rightarrow> map (enrichWaypoint getPostById) ws))
      in sortedWaypoints (map transformWaypoint waypoints))"

text \<open>\<open>enterJourneyMode\<close>, the part that runs at the call, before the first
  \<open>await\<close>.\<close>

definition enterJourneyMode_begin :: "trip \<Rightarrow> journalState \<Rightarrow> journalState" where
  "enterJourneyMode_begin journey s =
     s\<lparr>selectedJourney := Some journey, isJourneyMode := True, activeTab := Entries\<rparr>"

text \<open>\<open>enterJourneyMode\<close>, the part that runs once the requests have settled.\<close>

definition enterJourneyMode_resume ::
  "trip apiResponse settled \<Rightarrow> (string \<Rightarrow> post apiResponse settled) \<Rightarrow> journalState \<Rightarrow> journalState" where
  "enterJourneyMode_resume tripResult getPostById s =
     (let s1 = (case tripResult of
                  Resolved fullTripResponse \<Rightarrow> s\<lparr>selectedJourney := Some (unwrapData fullTripResponse)\<rparr>
                | Rejected \<Rightarrow> s)
      in s1\<lparr>journeyWaypoints := loadJourneyWaypoints tripResult getPostById, activeTab := Entries\<rparr>)"

definition exitJourneyMode :: "journalState \<Rightarrow> journalState" where
  "exitJourneyMode s = s\<lparr>isJourneyMode := False, selectedJourney := None, journeyWaypoints := []\<rparr>"

definition handleTabChange :: "tab \<Rightarrow> journalState \<Rightarrow> journalState" where
  "handleTabChange t s = s\<lparr>activeTab := t\<rparr>"

text \<open>The auto-exit effect, run after every state change.\<close>

definition autoExitEffect :: "journalState \<Rightarrow> journalState" where
  "autoExitEffect s =
     (if isJourneyMode s \<and> activeTab s \<noteq> Entries \<and> activeTab s \<noteq> Journeys
      then exitJourneyMode s else s)"

text \<open>The events of the journal screen that touch journey mode; \<open>dispatch\<close> applies
  one event and then the effect.\<close>

datatype journalEvent =
    EnterJourneyMode trip
  | TabChange tab
  | JourneyLoaded "trip apiResponse settled" "string \<Rightarrow> post apiResponse settled"
  | ExitJourneyMode

fun handleEvent :: "journalEvent \<Rightarrow> journalState \<Rightarrow> journalState" where
  "handleEvent (EnterJourneyMode journey) s = enterJourneyMode_begin journey s"
| "handleEvent (TabChange t) s = handleTabChange t s"
| "handleEvent (JourneyLoaded tripResult getPostById) s = enterJourneyMode_resume tripResult getPostById s"
| "handleEvent ExitJourneyMode s = exitJourneyMode s"

definition dispatch :: "journalEvent \<Rightarrow> journalState \<Rightarrow> journalState" where
  "dispatch ev s = autoExitEffect (handleEvent ev s)"

section \<open>Journal screen: the list shown\<close>

text \<open>\<open>Array.prototype.findIndex\<close>: the index of the first element that satisfies
  the predicate, \<open>-1\<close> when there is none.\<close>

fun findIndex :: "('a \<Rightarrow> bool) \<Rightarrow> 'a list \<Rightarrow> int" where
  "findIndex P [] = -1"
| "findIndex P (x # xs) =
     (if P x then 0 else (let i = findIndex P xs in if i < 0 then -1 else i + 1))"

text \<open>\<open>entries.filter((_, index) => index !== selectedIndex)\<close>\<close>

fun dropIndex :: "nat \<Rightarrow> 'a list \<Rightarrow> 'a list" where
  "dropIndex i [] = []"
| "dropIndex 0 (x # xs) = xs"
| "dropIndex (Suc i) (x # xs) = x # dropIndex i xs"

text \<open>The callback of \<open>findIndex\<close> in \<open>entriesToDisplay\<close>: entries are compared by
  post id, bare waypoints by their own id.\<close>

definition matchesSelected :: "waypoint \<Rightarrow> waypoint \<Rightarrow> bool" where
  "matchesSelected selected entry =
     (case (post entry, post selected) of
        (Some ep, Some sp) \<Rightarrow> p_id ep = p_id sp
      | (None, None) \<Rightarrow> w_id entry = w_id selected
      | _ \<Rightarrow> False)"

definition entriesToDisplay :: "journalState \<Rightarrow> waypoint list" where
  "entriesToDisplay s =
     (let entries = (if isJourneyMode s \<and> activeTab s = Entries then journeyWaypoints s
                     else visibleEntries s)
      in case selectedEntry s of
           None \<Rightarrow> entries
         | Some selected \<Rightarrow>
             if length entries > 0 then
               (let selectedIndex = findIndex (matchesSelected selected) entries
                in if selectedIndex > 0
                   then (entries ! nat selectedIndex) # dropIndex (nat selectedIndex) entries
                   else entries)
             else entries)"

section \<open>The drawer\<close>

text \<open>A request a handler starts. The handlers return the new state together with the
  requests they start; the continuation of a request is a function of its own.\<close>

datatype request = GetPostById string

text \<open>Journal screen, \<open>handleExpandDetail\<close>: nothing happens without a post id;
  otherwise the drawer goes to the loading state, springs to 90% of the screen, and the
  completion of the animation starts the request.\<close>

definition handleExpandDetailJ :: "journalState \<Rightarrow> journalState \<times> request list" where
  "handleExpandDetailJ s =
     (case selectedEntry s of
        None \<Rightarrow> (s, [])
      | Some selected \<Rightarrow>
          (case postId selected of
             None \<Rightarrow> (s, [])
           | Some i \<Rightarrow>
               if i = [] then (s, [])
               else (s\<lparr>isLoadingExpandedJ := True, translateYJ := 0, drawerHeightJ := 9 / 10\<rparr>,
                     [GetPostById i])))"

text \<open>The \<open>try\<close>/\<open>catch\<close> around the request of \<open>handleExpandDetail\<close>; \<open>selected\<close>
  is the \<open>selectedEntry\<close> the callback closed over.\<close>

definition expandSettledJ :: "waypoint \<Rightarrow> post apiResponse settled \<Rightarrow> journalState \<Rightarrow> journalState" where
  "expandSettledJ selected result s =
     (case result of
        Resolved fullEntry \<Rightarrow>
          s\<lparr>fullEntryDataJ := Some (FullEntry fullEntry), isExpandedJ := True, isLoadingExpandedJ := False\<rparr>
      | Rejected \<Rightarrow>
          s\<lparr>fullEntryDataJ := Some (PreviewData selected), isExpandedJ := True, isLoadingExpandedJ := False\<rparr>)"

text \<open>The state of the explore screen's drawer; the animated values are in units of the
  screen height.\<close>

record exploreState =
  selectedWaypoint :: "waypoint option"
  isExpanded :: bool
  isDrawerVisible :: bool
  shouldRenderDrawer :: bool
  isClosingAnimated :: bool
  isLoadingExpanded :: bool
  fullEntryData :: "entryData option"
  isCenteringFromWaypoint :: bool
  drawerHeight :: num
  translateY :: num

text \<open>Explore screen, \<open>handleExpandDetail\<close> and the \<open>try\<close>/\<open>catch\<close> around its
  request.\<close>

definition handleExpandDetail :: "exploreState \<Rightarrow> exploreState \<times> request list" where
  "handleExpandDetail s =
     (case selectedWaypoint s of
        None \<Rightarrow> (s, [])
      | Some selected \<Rightarrow>
          (case postId selected of
             None \<Rightarrow> (s, [])
           | Some i \<Rightarrow>
               if i = [] then (s, [])
               else (s\<lparr>isLoadingExpanded := True, translateY := 0, drawerHeight := 9 / 10\<rparr>,
                     [GetPostById i])))"

definition expandSettled :: "waypoint \<Rightarrow> post apiResponse settled \<Rightarrow> exploreState \<Rightarrow> exploreState" where
  "expandSettled selected result s =
     (case result of
        Resolved fullEntry \<Rightarrow>
          s\<lparr>fullEntryData := Some (FullEntry fullEntry), isExpanded := True, isLoadingExpanded := False\<rparr>
      | Rejected \<Rightarrow>
          s\<lparr>fullEntryData := Some (PreviewData selected), isExpanded := True, isLoadingExpanded := False\<rparr>)"

text \<open>Explore screen, \<open>handleWaypointPress\<close>. The timer that clears
  \<open>isCenteringFromWaypoint\<close> after 1.5 s is \<open>centeringTimeout\<close>.\<close>

definition handleWaypointPress :: "waypoint \<Rightarrow> bool \<Rightarrow> exploreState \<Rightarrow> exploreState \<times> request list" where
  "handleWaypointPress waypoint fromListView s =
     (let s1 = s\<lparr>selectedWaypoint := Some waypoint, shouldRenderDrawer := True,
                  isDrawerVisible := True, isCenteringFromWaypoint := True,
                  isClosingAnimated := False, fullEntryData := None\<rparr>
      in if fromListView then
           (let s2 = s1\<lparr>isLoadingExpanded := True, isExpanded := False, drawerHeight := 9 / 10\<rparr>
            in case postId waypoint of
                 None \<Rightarrow>
                   (s2\<lparr>fullEntryData := Some (PreviewData waypoint), isExpanded := True,
                       isLoadingExpanded := False\<rparr>, [])
               | Some i \<Rightarrow>
                   if i = [] then
                     (s2\<lparr>fullEntryData := Some (PreviewData waypoint), isExpanded := True,
                         isLoadingExpanded := False\<rparr>, [])
                   else (s2, [GetPostById i]))
         else
           (s1\<lparr>isExpanded := False, isLoadingExpanded := False, drawerHeight := 4 / 10,
               translateY := 0\<rparr>, []))"

definition centeringTimeout :: "exploreState \<Rightarrow> exploreState" where
  "centeringTimeout s = s\<lparr>isCenteringFromWaypoint := False\<rparr>"

text \<open>The \<open>then\<close>/\<open>catch\<close> of the request \<open>handleWaypointPress\<close> starts from the
  list view.\<close>

definition pressSettled :: "waypoint \<Rightarrow> post apiResponse settled \<Rightarrow> exploreState \<Rightarrow> exploreState" where
  "pressSettled waypoint result s =
     (case result of
        Resolved fullEntry \<Rightarrow>
          s\<lparr>fullEntryData := Some (FullEntry fullEntry), isExpanded := True, isLoadingExpanded := False\<rparr>
      | Rejected \<Rightarrow>
          s\<lparr>fullEntryData := Some (PreviewData waypoint), isExpanded := True, isLoadingExpanded := False\<rparr>)"

section \<open>The specification's wording, for comparison\<close>


text \<open>The effective date as the specification words it: post date, else waypoint date,
  else fetch timestamp, else epoch 0.\<close>

definition specEffectiveDate :: "int option \<Rightarrow> waypoint \<Rightarrow> int" where
  "specEffectiveDate fetchTimestamp w =
     (case (case post w of None \<Rightarrow> None | Some p \<Rightarrow> p_date p) of
        Some d \<Rightarrow> d
      | None \<Rightarrow> (case date w of
                   Some d \<Rightarrow> d
                 | None \<Rightarrow> (case fetchTimestamp of Some t \<Rightarrow> t | None \<Rightarrow> 0)))"

text \<open>The effective date the code sorts by, on a trip waypoint after enrichment: its own
  date, else its post's date, else epoch 0.\<close>

definition effectiveDate :: "rawWaypoint \<Rightarrow> int" where
  "effectiveDate waypoint =
     (case rw_date waypoint of
        Some d \<Rightarrow> d
      | None \<Rightarrow> (case rw_post waypoint of
                   None \<Rightarrow> 0
                 | Some p \<Rightarrow> (case p_date p of Some d \<Rightarrow> d | None \<Rightarrow> 0)))"

text \<open>The levels of a post in the specification's priority order: top-level fields,
  \<open>waypoint\<close>, \<open>location\<close>, \<open>coordinates\<close>; each level as its pair
  \<open>(lat || latitude, lon || lng || longitude)\<close>, a missing sub-object as no level.\<close>

definition topLevel :: "post \<Rightarrow> num option \<times> num option" where
  "topLevel p = (orNum (p_lat p) (p_latitude p), orNum (orNum (p_lon p) (p_lng p)) (p_longitude p))"

definition nestedLevel :: "coordObj option \<Rightarrow> (num option \<times> num option) list" where
  "nestedLevel sub = (case sub of None \<Rightarrow> [] | Some c \<Rightarrow> [(coordLat c, coordLon c)])"

definition specLevels :: "post \<Rightarrow> (num option \<times> num option) list" where
  "specLevels p =
     topLevel p # nestedLevel (p_waypoint p) @ nestedLevel (p_location p) @ nestedLevel (p_coordinates p)"

text \<open>The normalizer as the specification words it: the first level that holds a
  non-null, non-zero pair wins; \<open>(0, 0)\<close> when there is none.\<close>

definition specNormalize :: "post \<Rightarrow> num \<times> num" where
  "specNormalize p =
     (case find (\<lambda>(la, lo). truthyNum la \<and> truthyNum lo) (specLevels p) of
        Some (la, lo) \<Rightarrow> (orZero la, orZero lo)
      | None \<Rightarrow> (0, 0))"

text \<open>The search the code performs over a list of levels: the first level at which
  latitude or longitude is truthy wins, a coordinate it lacks becoming \<open>0\<close>.\<close>

definition firstLevelWithAny :: "(num option \<times> num option) list \<Rightarrow> num \<times> num" where
  "firstLevelWithAny levels =
     (case find (\<lambda>(la, lo). truthyNum la \<or> truthyNum lo) levels of
        Some (la, lo) \<Rightarrow> (orZero la, orZero lo)
      | None \<Rightarrow> (0, 0))"

section \<open>Example inputs\<close>

text \<open>A waypoint without a post, and the bounds and records of the specification's
  viewport scenario: bounds \<open>{north: 50, south: 40, east: 10, west: 0}\<close> and records at
  \<open>(45, 5)\<close>, \<open>(60, 5)\<close>, \<open>(45, -5)\<close>. \<open>shiftedBounds\<close> has its west edge at \<open>1\<close>.\<close>

definition bareWaypoint :: "num \<Rightarrow> num \<Rightarrow> waypoint" where
  "bareWaypoint la lo = \<lparr>w_id = None, lat = la, lon = lo, date = None, post = None\<rparr>"

definition scenarioBounds :: bounds where
  "scenarioBounds = \<lparr>ne = \<lparr>ll_lat = 50, ll_lon = 10\<rparr>, sw = \<lparr>ll_lat = 40, ll_lon = 0\<rparr>\<rparr>"


definition scenarioWaypoints :: "waypoint list" where
  "scenarioWaypoints = [bareWaypoint 45 5, bareWaypoint 60 5, bareWaypoint 45 (-5)]"

text \<open>A post with no field set, and a nested coordinate object \<open>{lat, lon}\<close>.\<close>

definition emptyPost :: post where
  "emptyPost = \<lparr>p_id = None, p_lat = None, p_latitude = None, p_lon = None, p_lng = None,
                 p_longitude = None, p_waypoint = None, p_location = None, p_coordinates = None,
                 p_date = None, p_createdAt = None, p_likesCount = 0, p_bookmarked = None\<rparr>"

definition coordPair :: "num \<Rightarrow> num \<Rightarrow> coordObj" where
  "coordPair la lo =
     \<lparr>c_lat = Some la, c_latitude = None, c_lon = Some lo, c_lng = None, c_longitude = None\<rparr>"

text \<open>A post with a latitude only at top level and a full pair under \<open>waypoint\<close>, and a
  post whose only coordinates are under \<open>waypoint\<close>.\<close>

definition halfTopPost :: post where
  "halfTopPost = emptyPost\<lparr>p_lat := Some 5, p_waypoint := Some (coordPair 7 8)\<rparr>"

definition nestedOnlyPost :: post where
  "nestedOnlyPost = emptyPost\<lparr>p_waypoint := Some (coordPair 7 8)\<rparr>"

text \<open>A waypoint backed by the post with id \<open>a\<close>.\<close>

definition postedWaypoint :: waypoint where
  "postedWaypoint = \<lparr>w_id = None, lat = 10, lon = 20, date = None,
                      post = Some (emptyPost\<lparr>p_id := Some ''a''\<rparr>)\<rparr>"

text \<open>A trip of two waypoints whose own dates (\<open>2\<close>, \<open>5\<close>) and post dates
  (\<open>10\<close>, \<open>1\<close>) order them differently; no post has an id, so none is enriched.\<close>

definition tripWaypoint :: "int option \<Rightarrow> post option \<Rightarrow> rawWaypoint" where
  "tripWaypoint d p =
     \<lparr>rw_id = None, rw_lat = Some 1, rw_latitude = None, rw_lon = Some 1, rw_lng = None,
      rw_longitude = None, rw_location = None, rw_date = d, rw_post = p\<rparr>"

definition crossedTrip :: trip where
  "crossedTrip =
     \<lparr>t_id = ''trip1'',
      t_waypoints = Some [tripWaypoint (Some 2) (Some (emptyPost\<lparr>p_date := Some 10\<rparr>)),
                          tripWaypoint (Some 5) (Some (emptyPost\<lparr>p_date := Some 1\<rparr>))]\<rparr>"

definition noPostDetail :: "string \<Rightarrow> post apiResponse settled" where
  "noPostDetail i = Rejected"

text \<open>The states the screens start in (the initial values of their \<open>useState\<close> cells).\<close>

definition initialJournalState :: journalState where
  "initialJournalState =
     \<lparr>selectedEntry = None, activeTab = Entries, isJourneyMode = False, selectedJourney = None,
      journeyWaypoints = [], visibleEntries = [], isExpandedJ = False, isDrawerVisibleJ = False,
      shouldRenderDrawerJ = False, isLoadingExpandedJ = False, fullEntryDataJ = None,
      drawerHeightJ = 3 / 10, translateYJ = 0\<rparr>"

definition initialExploreState :: exploreState where
  "initialExploreState =
     \<lparr>selectedWaypoint = None, isExpanded = False, isDrawerVisible = False,
      shouldRenderDrawer = False, isClosingAnimated = False, isLoadingExpanded = False,
      fullEntryData = None, isCenteringFromWaypoint = False, drawerHeight = 4 / 10,
      translateY = 0\<rparr>"

text \<open>A journal screen with the posted waypoint selected and listed second, and an explore
  screen whose drawer shows the posted waypoint collapsed.\<close>

definition selectionState :: journalState where
  "selectionState =
     initialJournalState\<lparr>selectedEntry := Some postedWaypoint,
                          visibleEntries := [bareWaypoint 45 5, postedWaypoint]\<rparr>"

definition collapsedExplore :: exploreState where
  "collapsedExplore = fst (handleWaypointPress postedWaypoint False initialExploreState)"

section \<open>The viewport filter: inclusion rule\<close>


text \<open>What \<open>updateMapBounds\<close> stores is never read as bounds by the explore screen's
  filter: with it the whole collection is listed.\<close>

lemma explore_stored_bounds_never_filter:
  "visibleWaypoints allWaypoints (updateMapBounds (Some b) mapBounds) = mapValues allWaypoints"
  by (simp add: visibleWaypoints_def updateMapBounds_def)





text \<open>
  C9: in the journal screen, when any of the four reported bound coordinates is exactly
  \<open>0\<close>, the bounds are treated as absent and the whole unfiltered list is the output.
\<close>

theorem journal_zero_bound_unfiltered:
  "ll_lat (sw b) = 0 \<or> ll_lon (sw b) = 0 \<or> ll_lat (ne b) = 0 \<or> ll_lon (ne b) = 0 \<Longrightarrow>
   updateVisibleEntries True mapWaypoints (Resolved (Some b)) old
     = (case mapWaypoints of Some ws \<Rightarrow> ws | None \<Rightarrow> [])"
  by (auto simp: updateVisibleEntries_def Let_def split: option.splits)

theorem journal_zero_bound_unfiltered_witness:
  "ll_lon (sw scenarioBounds) = 0 \<and>
   updateVisibleEntries True (Some scenarioWaypoints) (Resolved (Some scenarioBounds)) []
     = scenarioWaypoints"
  using journal_zero_bound_unfiltered[of scenarioBounds "Some scenarioWaypoints" "[]"]
  by (simp add: scenarioBounds_def)

section \<open>The merged collection: idempotent merge\<close>

lemma mapSet_keys: "fst ` set (mapSet k v m) = insert k (fst ` set m)"
proof (induction m)
  case Nil
  show ?case by simp
next
  case (Cons a m)
  obtain ka va where a: "a = (ka, va)" by (cases a)
  show ?case
  proof (cases "ka = k")
    case True
    with a show ?thesis by simp
  next
    case False
    with a Cons.IH show ?thesis by (simp add: insert_commute)
  qed
qed

lemma mapSet_twice: "mapSet k v (mapSet k v' m) = mapSet k v m"
  by (induction m) auto

lemma mapSet_commute:
  "k \<noteq> k' \<Longrightarrow> k' \<in> fst ` set m \<Longrightarrow> mapSet k v (mapSet k' v' m) = mapSet k' v' (mapSet k v m)"
proof (induction m)
  case Nil
  then show ?case by simp
next
  case (Cons a m)
  obtain ka va where a: "a = (ka, va)" by (cases a)
  show ?case
  proof (cases "ka = k'")
    case True
    with Cons.prems a show ?thesis by simp
  next
    case False
    with Cons.prems a have "k' \<in> fst ` set m" by auto
    with Cons.IH Cons.prems a False show ?thesis by simp
  qed
qed

lemma mergeWaypoints_keys:
  "fst ` set (mergeWaypoints m ws) = fst ` set m \<union> stableKey ` set ws"
  unfolding mergeWaypoints_def by (induction ws arbitrary: m) (auto simp: mapSet_keys)

lemma mergeWaypoints_snoc:
  "mergeWaypoints m (ws @ [w]) = mapSet (stableKey w) w (mergeWaypoints m ws)"
  by (simp add: mergeWaypoints_def)

text \<open>Setting a key before a merge of records whose keys are all present already, and
  again after it, is the same as setting it after the merge only.\<close>

lemma mergeWaypoints_absorb:
  "stableKey ` set ws \<subseteq> fst ` set m \<Longrightarrow>
   mapSet k v (mergeWaypoints (mapSet k v m) ws) = mapSet k v (mergeWaypoints m ws)"
proof (induction ws arbitrary: m)
  case Nil
  then show ?case by (simp add: mergeWaypoints_def mapSet_twice)
next
  case (Cons w ws)
  have sub: "stableKey ` set ws \<subseteq> fst ` set (mapSet (stableKey w) w m)"
    using Cons.prems by (auto simp: mapSet_keys)
  show ?case
  proof (cases "stableKey w = k")
    case True
    then show ?thesis by (simp add: mergeWaypoints_def mapSet_twice)
  next
    case False
    have kin: "stableKey w \<in> fst ` set m" using Cons.prems by auto
    have "mapSet (stableKey w) w (mapSet k v m) = mapSet k v (mapSet (stableKey w) w m)"
      using mapSet_commute[of k "stableKey w" m v w] False kin by simp
    then have "mergeWaypoints (mapSet k v m) (w # ws)
                 = mergeWaypoints (mapSet k v (mapSet (stableKey w) w m)) ws"
      by (simp add: mergeWaypoints_def)
    also have "mapSet k v \<dots> = mapSet k v (mergeWaypoints (mapSet (stableKey w) w m) ws)"
      using Cons.IH[OF sub] by simp
    finally show ?thesis by (simp add: mergeWaypoints_def)
  qed
qed

lemma mergeWaypoints_idem: "mergeWaypoints (mergeWaypoints m ws) ws = mergeWaypoints m ws"
proof (induction ws rule: rev_induct)
  case Nil
  then show ?case by (simp add: mergeWaypoints_def)
next
  case (snoc w ws)
  let ?M = "mergeWaypoints m ws"
  have sub: "stableKey ` set ws \<subseteq> fst ` set ?M" by (auto simp: mergeWaypoints_keys)
  have "mergeWaypoints (mergeWaypoints m (ws @ [w])) (ws @ [w])
        = mapSet (stableKey w) w (mergeWaypoints (mapSet (stableKey w) w ?M) ws)"
    by (simp add: mergeWaypoints_snoc)
  also have "\<dots> = mapSet (stableKey w) w (mergeWaypoints ?M ws)"
    using mergeWaypoints_absorb[OF sub] by simp
  also have "\<dots> = mapSet (stableKey w) w ?M" using snoc.IH by simp
  finally show ?case by (simp add: mergeWaypoints_snoc)
qed

text \<open>
  C2: merging a page into a collection twice gives the same collection as merging it
  once, keys, values and insertion order alike, in the explore screen
  (\<open>allWaypoints\<close>) and in the journal screen (\<open>allUserEntries\<close>).
\<close>

theorem merge_idempotent:
  "mergeAllWaypoints (mergeAllWaypoints c recentWaypoints) recentWaypoints
     = mergeAllWaypoints c recentWaypoints
   \<and> mergeAllUserEntries (mergeAllUserEntries c page) page
     = mergeAllUserEntries c page"
  by (simp add: mergeAllWaypoints_def mergeAllUserEntries_def mergeWaypoints_idem split: option.split)

section \<open>Identity keys\<close>

text \<open>Evaluation of \<open>numToString\<close> on numerals.\<close>

lemma floor_rat_numeral_div: "\<lfloor>(numeral a / numeral b :: rat)\<rfloor> = numeral a div numeral b"
  using floor_divide_of_int_eq[of "numeral a" "numeral b", where ?'a = rat] by simp

lemma fracDigits_numeral:
  "fracDigits (numeral k) f =
     (if f = 0 then []
      else digitChar (nat \<lfloor>10 * f\<rfloor>) # fracDigits (pred_numeral k) (10 * f - of_int \<lfloor>10 * f\<rfloor>))"
  by (simp add: numeral_eq_Suc)

lemmas numToString_eval =
  numToString_def digitChar_def Let_def fracDigits_numeral floor_rat_numeral_div




section \<open>The coordinate normalizers\<close>

lemma orZero_falsy: "\<not> truthyNum a \<Longrightarrow> orZero a = 0"
  by (cases a) (auto simp: orZero_def)

lemma tryNested_keep: "truthyNum (fst ll) \<or> truthyNum (snd ll) \<Longrightarrow> tryNested sub ll = ll"
  by (auto simp: tryNested_def split: option.splits)

lemma tryNested_none: "tryNested None ll = ll"
  by (simp add: tryNested_def)

lemma tryNested_take:
  "\<not> truthyNum (fst ll) \<Longrightarrow> \<not> truthyNum (snd ll) \<Longrightarrow> tryNested (Some c) ll = (coordLat c, coordLon c)"
  by (simp add: tryNested_def)

lemma firstLevelWithAny_hit:
  "truthyNum (fst ll) \<or> truthyNum (snd ll) \<Longrightarrow>
   firstLevelWithAny (ll # rest) = (orZero (fst ll), orZero (snd ll))"
  by (cases ll) (auto simp: firstLevelWithAny_def)

lemma firstLevelWithAny_skip:
  "\<not> truthyNum (fst ll) \<Longrightarrow> \<not> truthyNum (snd ll) \<Longrightarrow>
   firstLevelWithAny (ll # rest) = firstLevelWithAny rest"
  by (cases ll) (auto simp: firstLevelWithAny_def)

lemma firstLevelWithAny_nil: "firstLevelWithAny [] = (0, 0)"
  by (simp add: firstLevelWithAny_def)

text \<open>The nested fallback blocks, run in order over the sub-objects, find the first level
  with a truthy coordinate.\<close>

lemma nested_search:
  "(orZero (fst (foldl (\<lambda>ll sub. tryNested sub ll) ll subs)),
    orZero (snd (foldl (\<lambda>ll sub. tryNested sub ll) ll subs)))
   = firstLevelWithAny (ll # concat (map nestedLevel subs))"
proof (induction subs arbitrary: ll)
  case Nil
  show ?case
  proof (cases "truthyNum (fst ll) \<or> truthyNum (snd ll)")
    case True
    then show ?thesis by (simp add: firstLevelWithAny_hit)
  next
    case False
    then show ?thesis by (simp add: firstLevelWithAny_skip firstLevelWithAny_nil orZero_falsy)
  qed
next
  case (Cons sub subs)
  show ?case
  proof (cases "truthyNum (fst ll) \<or> truthyNum (snd ll)")
    case True
    then have "tryNested sub ll = ll" by (rule tryNested_keep)
    with Cons.IH[of ll] True show ?thesis by (simp add: firstLevelWithAny_hit)
  next
    case False
    then have f: "\<not> truthyNum (fst ll)" "\<not> truthyNum (snd ll)" by auto
    show ?thesis
    proof (cases sub)
      case None
      with Cons.IH[of ll] f show ?thesis
        by (simp add: tryNested_none nestedLevel_def firstLevelWithAny_skip)
    next
      case (Some c)
      with Cons.IH[of "(coordLat c, coordLon c)"] f show ?thesis
        by (simp add: tryNested_take nestedLevel_def firstLevelWithAny_skip)
    qed
  qed
qed

text \<open>
  C8, as the code has it. The bookmarks normalizer consults the levels in the order
  top-level fields, \<open>waypoint\<close>, \<open>location\<close>, \<open>coordinates\<close>, with the aliases
  \<open>lat\<close>/\<open>latitude\<close> and \<open>lon\<close>/\<open>lng\<close>/\<open>longitude\<close> at each; the first level at which
  the latitude or the longitude is non-null and non-zero wins, a coordinate that level
  lacks being \<open>0\<close>; with no such level both are \<open>0\<close>. The journal normalizer does the
  same over the top-level fields and \<open>location\<close> only.
\<close>

theorem normalizer_first_level_with_any:
  "(lat (bookmarkWaypoint p), lon (bookmarkWaypoint p)) = firstLevelWithAny (specLevels p)
   \<and> (lat (journalWaypoint p), lon (journalWaypoint p))
       = firstLevelWithAny (topLevel p # nestedLevel (p_location p))"
proof -
  have b: "bookmarkCoords p
             = foldl (\<lambda>ll sub. tryNested sub ll) (topLevel p) [p_waypoint p, p_location p, p_coordinates p]"
    by (simp add: bookmarkCoords_def topLevel_def)
  have j: "journalCoords p = foldl (\<lambda>ll sub. tryNested sub ll) (topLevel p) [p_location p]"
    by (simp add: journalCoords_def topLevel_def)
  have "(lat (bookmarkWaypoint p), lon (bookmarkWaypoint p)) = firstLevelWithAny (specLevels p)"
    using nested_search[of "topLevel p" "[p_waypoint p, p_location p, p_coordinates p]"]
    by (simp add: bookmarkWaypoint_def specLevels_def b)
  moreover have "(lat (journalWaypoint p), lon (journalWaypoint p))
       = firstLevelWithAny (topLevel p # nestedLevel (p_location p))"
    using nested_search[of "topLevel p" "[p_location p]"]
    by (simp add: journalWaypoint_def j)
  ultimately show ?thesis by simp
qed

text \<open>
  C8 as stated fails. A post with a top-level latitude only and a full pair under
  \<open>waypoint\<close> keeps \<open>(5, 0)\<close> in the bookmarks normalizer, where the first complete pair
  is \<open>(7, 8)\<close>; a post whose coordinates are under \<open>waypoint\<close> only gets \<open>(0, 0)\<close> in
  the journal normalizer and is dropped.
\<close>

theorem normalizer_counterexample:
  "(lat (bookmarkWaypoint halfTopPost), lon (bookmarkWaypoint halfTopPost)) = (5, 0)
   \<and> specNormalize halfTopPost = (7, 8)
   \<and> (lat (journalWaypoint nestedOnlyPost), lon (journalWaypoint nestedOnlyPost)) = (0, 0)
   \<and> userWaypoints (Some [nestedOnlyPost]) = []
   \<and> specNormalize nestedOnlyPost = (7, 8)"
  by (simp add: bookmarkWaypoint_def bookmarkCoords_def journalWaypoint_def journalCoords_def
        userWaypoints_def specNormalize_def specLevels_def topLevel_def nestedLevel_def
        tryNested_def coordLat_def coordLon_def orNum_def orZero_def
        halfTopPost_def nestedOnlyPost_def emptyPost_def coordPair_def)

section \<open>Journey mode: ordering and automatic exit\<close>

lemma sortTime_transform: "sortTime (transformWaypoint w) = effectiveDate w"
  by (simp add: sortTime_def transformWaypoint_def transformDate_def effectiveDate_def
           split: option.splits)

text \<open>
  C5, as the code has it: the journey waypoints \<open>enterJourneyMode\<close> stores are the
  transformed (enriched) trip waypoints, sorted ascending by effective date, where the
  effective date of a waypoint is its own date when it has one, else the date of its post,
  else epoch \<open>0\<close>.
\<close>

theorem journey_sorted_by_own_date_first:
  "sorted (map sortTime (journeyWaypoints (enterJourneyMode_resume tripResult getPostById s)))
   \<and> mset (loadJourneyWaypoints tripResult getPostById)
       = mset (map transformWaypoint
                (case tripResult of
                   Rejected \<Rightarrow> []
                 | Resolved r \<Rightarrow> (case t_waypoints (unwrapData r) of
                                   None \<Rightarrow> []
                                 | Some ws \<Rightarrow> map (enrichWaypoint getPostById) ws)))
   \<and> sortTime (transformWaypoint w) = effectiveDate w"
  by (simp add: enterJourneyMode_resume_def loadJourneyWaypoints_def sortedWaypoints_def
        sortTime_transform Let_def split: settled.split)

text \<open>
  C5 as stated fails: with own dates \<open>2\<close>, \<open>5\<close> and post dates \<open>10\<close>, \<open>1\<close> the
  stored order follows the own dates, and the effective dates with the post date first
  read \<open>10\<close>, \<open>1\<close>.
\<close>

theorem journey_sort_counterexample:
  "map (specEffectiveDate None)
     (journeyWaypoints (enterJourneyMode_resume (Resolved (Plain crossedTrip)) noPostDetail
        initialJournalState)) = [10, 1]
   \<and> \<not> sorted (map (specEffectiveDate None)
        (journeyWaypoints (enterJourneyMode_resume (Resolved (Plain crossedTrip)) noPostDetail
           initialJournalState)))"
  by (simp add: enterJourneyMode_resume_def loadJourneyWaypoints_def sortedWaypoints_def
        crossedTrip_def tripWaypoint_def enrichWaypoint_def emptyPost_def transformWaypoint_def
        transformDate_def transformCoords_def sortTime_def specEffectiveDate_def
        initialJournalState_def noPostDetail_def Let_def)

text \<open>
  C6: after \<open>enterJourneyMode\<close> has been called, a switch to a tab other than
  \<open>entries\<close> and \<open>journeys\<close> made before the trip request settles leaves journey mode
  inactive once the switch is processed, and it is still inactive after the request has
  settled, whatever it settled to.
\<close>

theorem tab_switch_keeps_journey_mode_off:
  "t \<noteq> Entries \<Longrightarrow> t \<noteq> Journeys \<Longrightarrow>
   isJourneyMode (dispatch (EnterJourneyMode journey) s)
   \<and> \<not> isJourneyMode (dispatch (TabChange t) (dispatch (EnterJourneyMode journey) s))
   \<and> \<not> isJourneyMode
         (dispatch (JourneyLoaded tripResult getPostById)
            (dispatch (TabChange t) (dispatch (EnterJourneyMode journey) s)))"
  by (simp add: dispatch_def autoExitEffect_def enterJourneyMode_begin_def handleTabChange_def
        exitJourneyMode_def enterJourneyMode_resume_def Let_def split: settled.split)

theorem tab_switch_keeps_journey_mode_off_witness:
  "Followers \<noteq> Entries \<and> Followers \<noteq> Journeys
   \<and> isJourneyMode (dispatch (EnterJourneyMode crossedTrip) initialJournalState)
   \<and> \<not> isJourneyMode (dispatch (TabChange Followers)
          (dispatch (EnterJourneyMode crossedTrip) initialJournalState))
   \<and> \<not> isJourneyMode
         (dispatch (JourneyLoaded (Resolved (Plain crossedTrip)) noPostDetail)
            (dispatch (TabChange Followers) (dispatch (EnterJourneyMode crossedTrip) initialJournalState)))"
  using tab_switch_keeps_journey_mode_off[of Followers crossedTrip initialJournalState
          "Resolved (Plain crossedTrip)" noPostDetail]
  by simp

section \<open>Selection promotion\<close>

lemma findIndex_ge: "findIndex P xs \<ge> -1"
  by (induction xs) (auto simp: Let_def)

lemma findIndex_none: "findIndex P xs < 0 \<longleftrightarrow> (\<forall>x \<in> set xs. \<not> P x)"
proof (induction xs)
  case Nil
  show ?case by simp
next
  case (Cons x xs)
  then show ?case using findIndex_ge[of P xs] by (auto simp: Let_def)
qed

lemma findIndex_found:
  "findIndex P xs \<ge> 0 \<Longrightarrow> nat (findIndex P xs) < length xs \<and> P (xs ! nat (findIndex P xs))"
proof (induction xs)
  case Nil
  then show ?case by simp
next
  case (Cons x xs)
  show ?case
  proof (cases "P x")
    case True
    then show ?thesis by simp
  next
    case False
    with Cons.prems have ge: "findIndex P xs \<ge> 0" by (auto simp: Let_def split: if_splits)
    with Cons.IH have ih: "nat (findIndex P xs) < length xs" "P (xs ! nat (findIndex P xs))" by auto
    from False ge have "findIndex P (x # xs) = findIndex P xs + 1" by (simp add: Let_def)
    with ge ih show ?thesis by (simp add: nat_add_distrib)
  qed
qed

lemma findIndex_zero: "findIndex P (x # xs) = 0 \<Longrightarrow> P x"
  using findIndex_ge[of P xs] by (auto simp: Let_def split: if_splits)

lemma set_dropIndex: "i < length xs \<Longrightarrow> insert (xs ! i) (set (dropIndex i xs)) = set xs"
proof (induction i xs rule: dropIndex.induct)
  case (1 i)
  then show ?case by simp
next
  case (2 x xs)
  then show ?case by simp
next
  case (3 i x xs)
  then show ?case by (auto simp: insert_commute)
qed

lemma mset_dropIndex: "i < length xs \<Longrightarrow> add_mset (xs ! i) (mset (dropIndex i xs)) = mset xs"
  by (induction i xs rule: dropIndex.induct) auto

text \<open>\<open>entriesToDisplay\<close> over the list it starts from, and that it permutes that list.\<close>

lemma entriesToDisplay_cases:
  assumes "es = (if isJourneyMode s \<and> activeTab s = Entries then journeyWaypoints s else visibleEntries s)"
  shows "entriesToDisplay s =
           (case selectedEntry s of
              None \<Rightarrow> es
            | Some selected \<Rightarrow>
                if es \<noteq> [] \<and> findIndex (matchesSelected selected) es > 0
                then (es ! nat (findIndex (matchesSelected selected) es))
                       # dropIndex (nat (findIndex (matchesSelected selected) es)) es
                else es)"
  unfolding assms entriesToDisplay_def Let_def by (simp split: option.split)

lemma entriesToDisplay_mset:
  "mset (entriesToDisplay s)
     = mset (if isJourneyMode s \<and> activeTab s = Entries then journeyWaypoints s else visibleEntries s)"
proof -
  define es where "es = (if isJourneyMode s \<and> activeTab s = Entries then journeyWaypoints s else visibleEntries s)"
  note unf = entriesToDisplay_cases[OF es_def]
  have "mset (entriesToDisplay s) = mset es"
  proof (cases "selectedEntry s")
    case None
    then show ?thesis by (simp add: unf)
  next
    case (Some sel)
    define i where "i = findIndex (matchesSelected sel) es"
    show ?thesis
    proof (cases "es \<noteq> [] \<and> i > 0")
      case True
      then have "nat i < length es" using findIndex_found[of "matchesSelected sel" es] by (simp add: i_def)
      then have "mset ((es ! nat i) # dropIndex (nat i) es) = mset es"
        using mset_dropIndex[of "nat i" es] by simp
      moreover have "entriesToDisplay s = (es ! nat i) # dropIndex (nat i) es"
        using True Some by (simp add: unf i_def)
      ultimately show ?thesis by simp
    next
      case False
      then have "entriesToDisplay s = es"
        using Some by (auto simp: unf i_def)
      then show ?thesis by simp
    qed
  qed
  then show ?thesis by (simp add: es_def)
qed

text \<open>
  C7, as the code has it. Journal screen: when an entry is selected and the list to
  display holds a record that matches it (entries by post id, bare waypoints by their own
  id), the record at index \<open>0\<close> of \<open>entriesToDisplay\<close> matches the selection; when
  only one record matches, it is that record.
\<close>

theorem selected_entry_promoted:
  assumes "selectedEntry s = Some selected"
    and "e \<in> set (entriesToDisplay s)"
    and "matchesSelected selected e"
  shows "matchesSelected selected (entriesToDisplay s ! 0)
         \<and> ((\<forall>e' \<in> set (entriesToDisplay s). matchesSelected selected e' \<longrightarrow> e' = e)
              \<longrightarrow> entriesToDisplay s ! 0 = e)"
proof -
  define es where "es = (if isJourneyMode s \<and> activeTab s = Entries then journeyWaypoints s else visibleEntries s)"
  define i where "i = findIndex (matchesSelected selected) es"
  have unf: "entriesToDisplay s =
               (if es \<noteq> [] \<and> i > 0 then (es ! nat i) # dropIndex (nat i) es else es)"
    unfolding i_def using entriesToDisplay_cases[OF es_def] assms(1) by simp
  have "mset (entriesToDisplay s) = mset es"
    unfolding es_def by (rule entriesToDisplay_mset)
  then have "set (entriesToDisplay s) = set es" by (rule mset_eq_setD)
  with assms(2) have ein: "e \<in> set es" by simp
  then have ne: "es \<noteq> []" by auto
  have "\<exists>x \<in> set es. matchesSelected selected x" using ein assms(3) by blast
  then have "\<not> i < 0" unfolding i_def by (simp add: findIndex_none)
  then have ge: "i \<ge> 0" by simp
  have found: "nat i < length es \<and> matchesSelected selected (es ! nat i)"
    using findIndex_found[of "matchesSelected selected" es] ge unfolding i_def by blast
  have first: "matchesSelected selected (entriesToDisplay s ! 0)"
  proof (cases "i > 0")
    case True
    with ne unf have "entriesToDisplay s = (es ! nat i) # dropIndex (nat i) es" by simp
    with found show ?thesis by simp
  next
    case False
    with ge have z: "i = 0" by simp
    with unf have eq: "entriesToDisplay s = es" by simp
    obtain x xs where xs: "es = x # xs" using ne by (cases es) auto
    have "findIndex (matchesSelected selected) (x # xs) = 0" using z xs unfolding i_def by simp
    then have "matchesSelected selected x" by (rule findIndex_zero)
    with eq xs show ?thesis by simp
  qed
  have "entriesToDisplay s \<noteq> []" using assms(2) by auto
  then have "entriesToDisplay s ! 0 \<in> set (entriesToDisplay s)" by simp
  with first show ?thesis by blast
qed


theorem selected_entry_promoted_witness:
  "selectedEntry selectionState = Some postedWaypoint
   \<and> postedWaypoint \<in> set (entriesToDisplay selectionState)
   \<and> matchesSelected postedWaypoint postedWaypoint
   \<and> matchesSelected postedWaypoint (entriesToDisplay selectionState ! 0)
   \<and> entriesToDisplay selectionState = [postedWaypoint, bareWaypoint 45 5]"
proof -
  have h1: "selectedEntry selectionState = Some postedWaypoint"
    by (simp add: selectionState_def initialJournalState_def)
  have m: "matchesSelected postedWaypoint postedWaypoint"
    by (simp add: matchesSelected_def postedWaypoint_def)
  have nm: "\<not> matchesSelected postedWaypoint (bareWaypoint 45 5)"
    by (simp add: matchesSelected_def postedWaypoint_def bareWaypoint_def)
  have ev: "entriesToDisplay selectionState = [postedWaypoint, bareWaypoint 45 5]"
    by (simp add: entriesToDisplay_def selectionState_def initialJournalState_def m nm Let_def)
  have h2: "postedWaypoint \<in> set (entriesToDisplay selectionState)" by (simp add: ev)
  from selected_entry_promoted[OF h1 h2 m] h1 h2 m ev show ?thesis by simp
qed

text \<open>
  C7 as stated fails on the explore screen, whose list is \<open>visibleWaypoints\<close> as it is:
  the selected waypoint stays at index \<open>1\<close>.
\<close>

theorem explore_list_counterexample:
  "selectedWaypoint (fst (handleWaypointPress postedWaypoint False initialExploreState))
     = Some postedWaypoint
   \<and> visibleWaypoints (mergeWaypoints [] [bareWaypoint 45 5, postedWaypoint]) None
     = [bareWaypoint 45 5, postedWaypoint]
   \<and> visibleWaypoints (mergeWaypoints [] [bareWaypoint 45 5, postedWaypoint]) None ! 0
     \<noteq> postedWaypoint"
  by (simp add: handleWaypointPress_def initialExploreState_def visibleWaypoints_def
        mergeWaypoints_def mapValues_def stableKey_def postId_def postedWaypoint_def
        bareWaypoint_def emptyPost_def numToString_eval)

section \<open>The drawer: fallback and expansion from the list\<close>

text \<open>
  C3: when the selected item has a post with an id and the detail request that
  \<open>handleExpandDetail\<close> starts is rejected, the drawer ends expanded, no longer loading,
  with the selected preview item as its detail payload; in the explore screen and in the
  journal screen alike.
\<close>

theorem expand_falls_back_to_preview:
  "(selectedWaypoint s = Some item \<and> postId item = Some i \<and> i \<noteq> [] \<longrightarrow>
      snd (handleExpandDetail s) = [GetPostById i]
      \<and> isLoadingExpanded (fst (handleExpandDetail s))
      \<and> isExpanded (expandSettled item Rejected (fst (handleExpandDetail s)))
      \<and> \<not> isLoadingExpanded (expandSettled item Rejected (fst (handleExpandDetail s)))
      \<and> fullEntryData (expandSettled item Rejected (fst (handleExpandDetail s)))
            = Some (PreviewData item)
      \<and> selectedWaypoint (expandSettled item Rejected (fst (handleExpandDetail s))) = Some item)
   \<and> (selectedEntry sj = Some item \<and> postId item = Some i \<and> i \<noteq> [] \<longrightarrow>
      snd (handleExpandDetailJ sj) = [GetPostById i]
      \<and> isLoadingExpandedJ (fst (handleExpandDetailJ sj))
      \<and> isExpandedJ (expandSettledJ item Rejected (fst (handleExpandDetailJ sj)))
      \<and> \<not> isLoadingExpandedJ (expandSettledJ item Rejected (fst (handleExpandDetailJ sj)))
      \<and> fullEntryDataJ (expandSettledJ item Rejected (fst (handleExpandDetailJ sj)))
            = Some (PreviewData item)
      \<and> selectedEntry (expandSettledJ item Rejected (fst (handleExpandDetailJ sj))) = Some item)"
  by (simp add: handleExpandDetail_def expandSettled_def handleExpandDetailJ_def expandSettledJ_def)

theorem expand_falls_back_to_preview_witness:
  "selectedWaypoint collapsedExplore = Some postedWaypoint
   \<and> postId postedWaypoint = Some ''a''
   \<and> selectedEntry selectionState = Some postedWaypoint
   \<and> snd (handleExpandDetail collapsedExplore) = [GetPostById ''a'']
   \<and> isExpanded (expandSettled postedWaypoint Rejected (fst (handleExpandDetail collapsedExplore)))
   \<and> fullEntryData (expandSettled postedWaypoint Rejected (fst (handleExpandDetail collapsedExplore)))
        = Some (PreviewData postedWaypoint)
   \<and> isExpandedJ (expandSettledJ postedWaypoint Rejected (fst (handleExpandDetailJ selectionState)))
   \<and> fullEntryDataJ (expandSettledJ postedWaypoint Rejected (fst (handleExpandDetailJ selectionState)))
        = Some (PreviewData postedWaypoint)"
proof -
  have h1: "selectedWaypoint collapsedExplore = Some postedWaypoint"
    by (simp add: collapsedExplore_def handleWaypointPress_def)
  have h2: "postId postedWaypoint = Some ''a''"
    by (simp add: postId_def postedWaypoint_def emptyPost_def)
  have h3: "selectedEntry selectionState = Some postedWaypoint"
    by (simp add: selectionState_def initialJournalState_def)
  from expand_falls_back_to_preview[of collapsedExplore postedWaypoint "''a''" selectionState]
       h1 h2 h3
  show ?thesis by simp
qed

text \<open>
  C10: in the explore screen, pressing from the list view a waypoint without a post id
  expands the drawer at once with the waypoint itself as the detail payload and starts no
  request; pressed from the map the same waypoint is shown collapsed, and expanding it
  changes nothing.
\<close>

theorem list_press_on_bare_waypoint_expands:
  "postId w = None \<or> postId w = Some [] \<Longrightarrow>
   snd (handleWaypointPress w True s) = []
   \<and> selectedWaypoint (fst (handleWaypointPress w True s)) = Some w
   \<and> isExpanded (fst (handleWaypointPress w True s))
   \<and> \<not> isLoadingExpanded (fst (handleWaypointPress w True s))
   \<and> fullEntryData (fst (handleWaypointPress w True s)) = Some (PreviewData w)
   \<and> snd (handleWaypointPress w False s) = []
   \<and> \<not> isExpanded (fst (handleWaypointPress w False s))
   \<and> handleExpandDetail (fst (handleWaypointPress w False s))
       = (fst (handleWaypointPress w False s), [])"
  by (auto simp: handleWaypointPress_def handleExpandDetail_def Let_def)

theorem list_press_on_bare_waypoint_expands_witness:
  "postId (bareWaypoint 45 5) = None
   \<and> snd (handleWaypointPress (bareWaypoint 45 5) True initialExploreState) = []
   \<and> isExpanded (fst (handleWaypointPress (bareWaypoint 45 5) True initialExploreState))
   \<and> fullEntryData (fst (handleWaypointPress (bareWaypoint 45 5) True initialExploreState))
        = Some (PreviewData (bareWaypoint 45 5))
   \<and> \<not> isExpanded (fst (handleWaypointPress (bareWaypoint 45 5) False initialExploreState))"
proof -
  have h: "postId (bareWaypoint 45 5) = None \<or> postId (bareWaypoint 45 5) = Some []"
    by (simp add: postId_def bareWaypoint_def)
  have h': "postId (bareWaypoint 45 5) = None"
    by (simp add: postId_def bareWaypoint_def)
  from list_press_on_bare_waypoint_expands[OF h, of initialExploreState] h'
  show ?thesis by simp
qed

end
